theory Spec2Isabelle
  imports Main
begin

section \<open>The span tracker of ReactOpenTelemetryHook\<close>

text \<open>
  The class \<open>ReactOpenTelemetryHook\<close> keeps one private field \<open>_activeSpan\<close> and talks
  to three things it does not own: the tracer (\<open>this.tracer.startSpan\<close>), the span handles
  the tracer gives out (\<open>span.end()\<close>) and the ambient context
  (\<open>trace.getSpan(context.active())\<close>). The model passes the object's fields and the
  observable history of those outside calls along as one state, and takes the behaviour
  of the outside world as a parameter.
\<close>

subsection \<open>Values\<close>

text \<open>
  A span handle is opaque to the tracker. \<open>Started n\<close> is the handle of the \<open>n\<close>-th span
  the tracer created in the history the state records; \<open>Outside k\<close> is a span that came
  into being elsewhere, which only the ambient context can supply. Attribute values are
  the primitives of \<open>Record<string, string | number | boolean>\<close>; the tracker never
  inspects a value, so a number is kept as an integer.
\<close>

datatype span = Started nat | Outside nat

datatype prim = PString string | PNumber int | PBoolean bool

type_synonym attributes = "string \<rightharpoonup> prim"

datatype js_value = Prim prim | Obj attributes

type_synonym span_options = "string \<rightharpoonup> js_value"

datatype exn = TypeError string | Thrown string

datatype diag_entry = DiagDebug string | DiagWarn string "exn option"

text \<open>
  What one call \<open>tracer.startSpan(name, options, context)\<close> was given. The third argument
  is \<open>trace.setSpan(context.active(), parentSpan)\<close> or \<open>undefined\<close>: \<open>Some p\<close> is a context
  carrying \<open>p\<close> as the parent, \<open>None\<close> leaves the choice of parent to the tracer.
\<close>

record span_request =
  span_name :: string
  span_options :: span_options
  span_context :: "span option"

record state =
  activeSpan :: "span option"
  httpInterceptorEnabled :: bool
  spans :: "span_request list"
  ended :: "span list"
  diag :: "diag_entry list"

text \<open>
  The outside world: whether a \<open>startSpan\<close> call raises (\<open>None\<close>: it creates the span),
  the span the ambient context carries, and whether \<open>end()\<close> on a handle raises.
\<close>

record env =
  tracer :: "span_request \<Rightarrow> exn option"
  ambient :: "span option"
  span_end :: "span \<Rightarrow> exn option"

subsection \<open>Statements\<close>

text \<open>
  A statement either completes normally with a value, returns from the enclosing method,
  or throws. A method body that runs to its end without \<open>return\<close> completes with
  \<open>Normal ()\<close>; its caller sees \<open>undefined\<close>.
\<close>

datatype ('r, 'a) completion = Normal 'a | Return 'r | Throw exn

type_synonym ('r, 'a) stmt = "state \<Rightarrow> ('r, 'a) completion \<times> state"

definition seq :: "('r, 'a) stmt \<Rightarrow> ('a \<Rightarrow> ('r, 'b) stmt) \<Rightarrow> ('r, 'b) stmt" where
  "seq m f s =
     (case m s of
        (Normal a, s') \<Rightarrow> f a s'
      | (Return r, s') \<Rightarrow> (Return r, s')
      | (Throw e, s') \<Rightarrow> (Throw e, s'))"

definition try_catch :: "('r, 'a) stmt \<Rightarrow> (exn \<Rightarrow> ('r, 'a) stmt) \<Rightarrow> ('r, 'a) stmt" where
  "try_catch body handler s =
     (case body s of
        (Throw e, s') \<Rightarrow> handler e s'
      | (Normal a, s') \<Rightarrow> (Normal a, s')
      | (Return r, s') \<Rightarrow> (Return r, s'))"

text \<open>Calling a method whose declared result is \<open>T | undefined\<close>.\<close>

definition call :: "('a option, unit) stmt \<Rightarrow> ('r, 'a option) stmt" where
  "call body s =
     (case body s of
        (Return r, s') \<Rightarrow> (Normal r, s')
      | (Normal u, s') \<Rightarrow> (Normal None, s')
      | (Throw e, s') \<Rightarrow> (Throw e, s'))"

definition skip :: "('r, unit) stmt" where
  "skip s = (Normal (), s)"

definition return :: "'r \<Rightarrow> ('r, 'a) stmt" where
  "return r s = (Return r, s)"

subsection \<open>The outside calls\<close>

definition tracer_startSpan ::
    "env \<Rightarrow> string \<Rightarrow> span_options \<Rightarrow> span option \<Rightarrow> ('r, span) stmt" where
  "tracer_startSpan w n opts ctx s =
     (let req = \<lparr>span_name = n, span_options = opts, span_context = ctx\<rparr>
      in case tracer w req of
           Some e \<Rightarrow> (Throw e, s)
         | None \<Rightarrow> (Normal (Started (length (spans s))), s\<lparr>spans := spans s @ [req]\<rparr>))"

definition span_end_call :: "env \<Rightarrow> span \<Rightarrow> ('r, unit) stmt" where
  "span_end_call w h s =
     (case span_end w h of
        Some e \<Rightarrow> (Throw e, s)
      | None \<Rightarrow> (Normal (), s\<lparr>ended := ended s @ [h]\<rparr>))"

definition diag_debug :: "string \<Rightarrow> ('r, unit) stmt" where
  "diag_debug msg s = (Normal (), s\<lparr>diag := diag s @ [DiagDebug msg]\<rparr>)"

definition diag_warn :: "string \<Rightarrow> exn option \<Rightarrow> ('r, unit) stmt" where
  "diag_warn msg err s = (Normal (), s\<lparr>diag := diag s @ [DiagWarn msg err]\<rparr>)"

definition set_activeSpan :: "span option \<Rightarrow> ('r, unit) stmt" where
  "set_activeSpan v s = (Normal (), s\<lparr>activeSpan := v\<rparr>)"

subsection \<open>Object literals\<close>

text \<open>
  \<open>{...attributes}\<close> copies the entries of \<open>attributes\<close>, and nothing when it is
  \<open>undefined\<close>.
\<close>

definition spread :: "attributes option \<Rightarrow> attributes" where
  "spread a = (case a of None \<Rightarrow> Map.empty | Some m \<Rightarrow> m)"

definition spread_options :: "attributes option \<Rightarrow> span_options" where
  "spread_options a = (\<lambda>k. map_option Prim (spread a k))"

definition page_attributes :: "string \<Rightarrow> attributes option \<Rightarrow> attributes" where
  "page_attributes pageName a =
     [''page.name'' \<mapsto> PString pageName,
      ''page.type'' \<mapsto> PString ''navigation'',
      ''span.kind'' \<mapsto> PString ''client''] ++ spread a"

definition page_options :: "string \<Rightarrow> attributes option \<Rightarrow> span_options" where
  "page_options pageName a = [''attributes'' \<mapsto> Obj (page_attributes pageName a)]"

subsection \<open>The methods\<close>

text \<open>
  The private methods \<open>_startParentSpan\<close>, \<open>_startSpan\<close> and \<open>_endSpan\<close> are
  \<open>priv_startParentSpan\<close>, \<open>priv_startSpan\<close> and \<open>priv_endSpan\<close> here (a name cannot
  begin with an underscore). \<open>init_state\<close> is the object right after
  \<open>new ReactOpenTelemetryHook()\<close>: the constructor of the base class has called
  \<open>enable()\<close>, which logged its debug line, the field initialisers have left the slot
  empty, and the tracer has created no span yet.
\<close>

definition init_state :: state where
  "init_state =
     \<lparr>activeSpan = None, httpInterceptorEnabled = False, spans = [], ended = [],
      diag = [DiagDebug ''ReactOpenTelemetryHook enabled'']\<rparr>"

definition priv_startParentSpan ::
    "env \<Rightarrow> string \<Rightarrow> span option \<Rightarrow> attributes option \<Rightarrow> (span option, unit) stmt" where
  "priv_startParentSpan w spanName parentSpan a =
     seq (tracer_startSpan w spanName (spread_options a) parentSpan) (\<lambda>span.
     seq (set_activeSpan (Some span)) (\<lambda>_.
     return (Some span)))"

definition priv_startSpan ::
    "env \<Rightarrow> string \<Rightarrow> span option \<Rightarrow> attributes option \<Rightarrow> (span option, unit) stmt" where
  "priv_startSpan w spanName parentSpan a =
     seq (tracer_startSpan w spanName (spread_options a) parentSpan) (\<lambda>span.
     return (Some span))"

definition priv_endSpan :: "env \<Rightarrow> span \<Rightarrow> (unit, unit) stmt" where
  "priv_endSpan w span = span_end_call w span"

definition resetSpan :: "env \<Rightarrow> (unit, unit) stmt" where
  "resetSpan w =
     seq (\<lambda>s. (case activeSpan s of
                 Some h \<Rightarrow>
                   try_catch (span_end_call w h)
                     (\<lambda>error. diag_warn ''Error ending span during reset:'' (Some error))
               | None \<Rightarrow> skip) s) (\<lambda>_.
     set_activeSpan None)"

definition getActiveSpan :: "(span option, unit) stmt" where
  "getActiveSpan s = return (activeSpan s) s"

definition RunTrace :: "env \<Rightarrow> string \<Rightarrow> attributes option \<Rightarrow> (span option, unit) stmt" where
  "RunTrace w action a =
     seq (\<lambda>s. (Normal (case activeSpan s of Some p \<Rightarrow> Some p | None \<Rightarrow> ambient w), s))
       (\<lambda>parentSpan0.
     seq (case parentSpan0 of
            None \<Rightarrow>
              seq (call (priv_startParentSpan w action parentSpan0 a)) (\<lambda>span.
              seq (set_activeSpan span) (\<lambda>_.
              (\<lambda>s. (Normal span, s))))
          | Some p \<Rightarrow> (\<lambda>s. (Normal parentSpan0, s))) (\<lambda>parentSpan.
     seq (call (priv_startSpan w action parentSpan a)) (\<lambda>span.
     seq (return span) (\<lambda>_ :: unit.
     seq (diag_warn ''No parent span available for RunTrace'' None) (\<lambda>_.
     return None)))))"

text \<open>
  \<open>startPageSpan\<close> calls \<open>this.setActiveSpan(pageSpan)\<close>. The class declares no member of
  that name (its members are \<open>init\<close>, \<open>enable\<close>, \<open>disable\<close>, \<open>_startParentSpan\<close>,
  \<open>_startSpan\<close>, \<open>_endSpan\<close>, \<open>resetSpan\<close>, \<open>getActiveSpan\<close>, \<open>RunTrace\<close>,
  \<open>startPageSpan\<close>, \<open>getTracer\<close>, \<open>disableHttpInterceptor\<close> and
  \<open>isHttpInterceptorEnabled\<close>), and the base class \<open>InstrumentationBase\<close> has none either,
  so the property lookup yields \<open>undefined\<close> and calling it throws a TypeError.
\<close>

definition setActiveSpan :: "span \<Rightarrow> ('r, unit) stmt" where
  "setActiveSpan span s = (Throw (TypeError ''this.setActiveSpan is not a function''), s)"

definition startPageSpan :: "env \<Rightarrow> string \<Rightarrow> attributes option \<Rightarrow> (span, unit) stmt" where
  "startPageSpan w pageName a =
     seq (tracer_startSpan w (''page.'' @ pageName) (page_options pageName a) None)
       (\<lambda>pageSpan.
     seq (setActiveSpan pageSpan) (\<lambda>_.
     seq (diag_debug (''Started new page span for: '' @ pageName)) (\<lambda>_.
     return pageSpan)))"

definition getTracer :: "env \<Rightarrow> (span_request \<Rightarrow> exn option, unit) stmt" where
  "getTracer w = return (tracer w)"

definition enable :: "(unit, unit) stmt" where
  "enable = diag_debug ''ReactOpenTelemetryHook enabled''"

definition disable :: "(unit, unit) stmt" where
  "disable = diag_debug ''ReactOpenTelemetryHook disabled''"

definition disableHttpInterceptor :: "(unit, unit) stmt" where
  "disableHttpInterceptor =
     seq (\<lambda>s. (Normal (), s\<lparr>httpInterceptorEnabled := False\<rparr>)) (\<lambda>_.
     diag_debug ''HTTP interceptor disabled'')"

definition isHttpInterceptorEnabled :: "(bool, unit) stmt" where
  "isHttpInterceptorEnabled s = return (httpInterceptorEnabled s) s"


subsection \<open>The span attributes a request carries\<close>

text \<open>
  Modelled from the spec: the tracer is the external OpenTelemetry SDK, which is not part
  of the repository. Section 6 gives its contract as
  \<open>tracer.startSpan(name, options: {attributes: mapping}, parentContext?)\<close>: the span's
  attributes are the mapping stored under the key \<open>attributes\<close> of the options object.
  An options object without that key, or with a primitive under it, gives none.
\<close>

definition span_attributes :: "span_options \<Rightarrow> attributes" where
  "span_attributes opts =
     (case opts ''attributes'' of
        Some (Obj m) \<Rightarrow> m
      | Some (Prim v) \<Rightarrow> Map.empty
      | None \<Rightarrow> Map.empty)"

subsection \<open>Sequences of calls\<close>

text \<open>
  The application drives the tracker one call at a time (section 5 of the specification:
  single-threaded, no call yields mid-update). Each call meets its own outside world.
  A call that throws leaves the state it had built up to the throw.
\<close>

datatype op =
    OpStartPageSpan string "attributes option"
  | OpRunTrace string "attributes option"
  | OpResetSpan
  | OpGetActiveSpan
  | OpGetTracer
  | OpEnable
  | OpDisable
  | OpDisableHttpInterceptor
  | OpIsHttpInterceptorEnabled

fun step :: "env \<Rightarrow> op \<Rightarrow> state \<Rightarrow> state" where
  "step w (OpStartPageSpan pageName a) s = snd (startPageSpan w pageName a s)"
| "step w (OpRunTrace action a) s = snd (RunTrace w action a s)"
| "step w OpResetSpan s = snd (resetSpan w s)"
| "step w OpGetActiveSpan s = snd (getActiveSpan s)"
| "step w OpGetTracer s = snd (getTracer w s)"
| "step w OpEnable s = snd (enable s)"
| "step w OpDisable s = snd (disable s)"
| "step w OpDisableHttpInterceptor s = snd (disableHttpInterceptor s)"
| "step w OpIsHttpInterceptorEnabled s = snd (isHttpInterceptorEnabled s)"

fun run :: "(env \<times> op) list \<Rightarrow> state \<Rightarrow> state" where
  "run [] s = s"
| "run (c # cs) s = run cs (step (fst c) (snd c) s)"

text \<open>
  The handles the tracker holds or has ended are handles the tracer gave out, and the
  held one has not been ended by the tracker.
\<close>

definition started_in :: "state \<Rightarrow> span \<Rightarrow> bool" where
  "started_in s h = (case h of Started n \<Rightarrow> n < length (spans s) | Outside k \<Rightarrow> False)"

definition handles_ok :: "state \<Rightarrow> bool" where
  "handles_ok s \<longleftrightarrow>
     (\<forall>h \<in> set (ended s). started_in s h) \<and>
     (case activeSpan s of
        None \<Rightarrow> True
      | Some h \<Rightarrow> started_in s h \<and> h \<notin> set (ended s))"

subsection \<open>Sample worlds\<close>

text \<open>
  A tracer that works, one whose \<open>startSpan\<close> always throws, handles whose \<open>end\<close>
  throws, and a tracer that creates a span without parent context and throws on every
  request that carries one.
\<close>

definition quiet_env :: env where
  "quiet_env = \<lparr>tracer = (\<lambda>r. None), ambient = None, span_end = (\<lambda>h. None)\<rparr>"


definition end_failing_env :: env where
  "end_failing_env =
     \<lparr>tracer = (\<lambda>r. None), ambient = None,
      span_end = (\<lambda>h. Some (Thrown ''span already ended''))\<rparr>"


definition ambient_env :: env where
  "ambient_env =
     \<lparr>tracer = (\<lambda>r. None), ambient = Some (Outside 7), span_end = (\<lambda>h. None)\<rparr>"

definition active_state :: state where
  "active_state =
     \<lparr>activeSpan = Some (Started 0), httpInterceptorEnabled = False,
      spans = [\<lparr>span_name = ''checkout'', span_options = Map.empty, span_context = None\<rparr>],
      ended = [], diag = []\<rparr>"

definition sample_attributes :: attributes where
  "sample_attributes = [''route.path'' \<mapsto> PString ''/dashboard'']"


section \<open>What each method computes\<close>

lemma resetSpan_eval:
  "resetSpan w s =
     (Normal (),
      (case activeSpan s of
         None \<Rightarrow> s
       | Some h \<Rightarrow>
           (case span_end w h of
              None \<Rightarrow> s\<lparr>ended := ended s @ [h]\<rparr>
            | Some e \<Rightarrow>
                s\<lparr>diag := diag s @ [DiagWarn ''Error ending span during reset:'' (Some e)]\<rparr>))
      \<lparr>activeSpan := None\<rparr>)"
  by (simp add: resetSpan_def seq_def try_catch_def span_end_call_def diag_warn_def
      skip_def set_activeSpan_def split: option.splits)

lemma startSpan_call_eval:
  "call (priv_startSpan w n ctx a) s =
     (case tracer w \<lparr>span_name = n, span_options = spread_options a, span_context = ctx\<rparr> of
        Some e \<Rightarrow> (Throw e, s)
      | None \<Rightarrow>
          (Normal (Some (Started (length (spans s)))),
           s\<lparr>spans := spans s @
                [\<lparr>span_name = n, span_options = spread_options a, span_context = ctx\<rparr>]\<rparr>))"
  by (simp add: call_def priv_startSpan_def seq_def tracer_startSpan_def return_def Let_def
      split: option.splits)

lemma startParentSpan_call_eval:
  "call (priv_startParentSpan w n ctx a) s =
     (case tracer w \<lparr>span_name = n, span_options = spread_options a, span_context = ctx\<rparr> of
        Some e \<Rightarrow> (Throw e, s)
      | None \<Rightarrow>
          (Normal (Some (Started (length (spans s)))),
           s\<lparr>spans := spans s @
                [\<lparr>span_name = n, span_options = spread_options a, span_context = ctx\<rparr>],
              activeSpan := Some (Started (length (spans s)))\<rparr>))"
  by (simp add: call_def priv_startParentSpan_def seq_def tracer_startSpan_def return_def
      set_activeSpan_def Let_def split: option.splits)

lemma RunTrace_parent_eval:
  assumes "(case activeSpan s of Some p \<Rightarrow> Some p | None \<Rightarrow> ambient w) = Some p"
  shows "RunTrace w action a s =
     (case tracer w \<lparr>span_name = action, span_options = spread_options a,
                     span_context = Some p\<rparr> of
        Some e \<Rightarrow> (Throw e, s)
      | None \<Rightarrow>
          (Return (Some (Started (length (spans s)))),
           s\<lparr>spans := spans s @
                [\<lparr>span_name = action, span_options = spread_options a,
                  span_context = Some p\<rparr>]\<rparr>))"
  using assms
  by (simp add: RunTrace_def seq_def startSpan_call_eval return_def split: option.splits)

lemma RunTrace_synth_eval:
  assumes "activeSpan s = None" and "ambient w = None"
  shows "RunTrace w action a s =
     (case tracer w \<lparr>span_name = action, span_options = spread_options a,
                     span_context = None\<rparr> of
        Some e \<Rightarrow> (Throw e, s)
      | None \<Rightarrow>
         (case tracer w \<lparr>span_name = action, span_options = spread_options a,
                         span_context = Some (Started (length (spans s)))\<rparr> of
            Some e \<Rightarrow>
              (Throw e,
               s\<lparr>spans := spans s @
                    [\<lparr>span_name = action, span_options = spread_options a,
                      span_context = None\<rparr>],
                  activeSpan := Some (Started (length (spans s)))\<rparr>)
          | None \<Rightarrow>
              (Return (Some (Started (Suc (length (spans s))))),
               s\<lparr>spans := spans s @
                    [\<lparr>span_name = action, span_options = spread_options a,
                      span_context = None\<rparr>,
                     \<lparr>span_name = action, span_options = spread_options a,
                      span_context = Some (Started (length (spans s)))\<rparr>],
                  activeSpan := Some (Started (length (spans s)))\<rparr>)))"
  using assms
  by (simp add: RunTrace_def seq_def startSpan_call_eval startParentSpan_call_eval return_def
      set_activeSpan_def split: option.splits)

lemma RunTrace_cases:
  obtains p where "(case activeSpan s of Some p \<Rightarrow> Some p | None \<Rightarrow> ambient w) = Some p"
  | "activeSpan s = None" and "ambient w = None"
  by (cases "activeSpan s"; cases "ambient w") auto

lemma startPageSpan_eval:
  "startPageSpan w pageName a s =
     (case tracer w \<lparr>span_name = ''page.'' @ pageName,
                     span_options = page_options pageName a, span_context = None\<rparr> of
        Some e \<Rightarrow> (Throw e, s)
      | None \<Rightarrow>
          (Throw (TypeError ''this.setActiveSpan is not a function''),
           s\<lparr>spans := spans s @
                [\<lparr>span_name = ''page.'' @ pageName,
                  span_options = page_options pageName a, span_context = None\<rparr>]\<rparr>))"
  by (simp add: startPageSpan_def seq_def tracer_startSpan_def setActiveSpan_def Let_def
      split: option.splits)

lemma startPageSpan_slot:
  "activeSpan (snd (startPageSpan w pageName a s)) = activeSpan s"
  by (simp add: startPageSpan_eval split: option.splits)

lemma startPageSpan_no_return:
  "fst (startPageSpan w pageName a s) \<noteq> Return h"
  by (simp add: startPageSpan_eval split: option.splits)

section \<open>Starting a page span\<close>

text \<open>
  Claim C1: after \<open>startPageSpan(pageName, attributes)\<close> returns, the span it returns is
  installed in the active slot and \<open>getActiveSpan()\<close> gives that handle back.

  The code does not get there. On a fresh tracker with a working tracer,
  \<open>startPageSpan("home", {})\<close> has the tracer create the span \<open>page.home\<close> and then throws
  the TypeError of the call to the missing \<open>setActiveSpan\<close>: no handle is returned, and
  \<open>getActiveSpan()\<close> afterwards still returns \<open>undefined\<close>.
\<close>

theorem startPageSpan_home_throws:
  "fst (startPageSpan quiet_env ''home'' (Some Map.empty) init_state) =
     Throw (TypeError ''this.setActiveSpan is not a function'') \<and>
   spans (snd (startPageSpan quiet_env ''home'' (Some Map.empty) init_state)) =
     [\<lparr>span_name = ''page.home'', span_options = page_options ''home'' (Some Map.empty),
       span_context = None\<rparr>] \<and>
   fst (getActiveSpan (snd (startPageSpan quiet_env ''home'' (Some Map.empty) init_state))) =
     Return None"
  by (simp add: startPageSpan_eval quiet_env_def init_state_def getActiveSpan_def return_def)

section \<open>Exceptions reaching the caller\<close>




section \<open>Reset\<close>

text \<open>
  Claim C5: \<open>resetSpan\<close> ends the held span if the slot is non-empty and then clears the
  slot unconditionally. It completes without throwing in every case: with an empty slot
  (nothing changes), with a handle whose \<open>end()\<close> succeeds (the handle is ended), and
  with a handle whose \<open>end()\<close> throws (the exception is caught and logged as a warning).
  Afterwards the slot is always empty.
\<close>

theorem resetSpan_ends_and_clears:
  "fst (resetSpan w s) = Normal () \<and>
   activeSpan (snd (resetSpan w s)) = None \<and>
   (activeSpan s = None \<longrightarrow> snd (resetSpan w s) = s) \<and>
   (\<forall>h. activeSpan s = Some h \<and> span_end w h = None \<longrightarrow>
      snd (resetSpan w s) = s\<lparr>ended := ended s @ [h], activeSpan := None\<rparr>) \<and>
   (\<forall>h e. activeSpan s = Some h \<and> span_end w h = Some e \<longrightarrow>
      snd (resetSpan w s) =
        s\<lparr>diag := diag s @ [DiagWarn ''Error ending span during reset:'' (Some e)],
          activeSpan := None\<rparr>)"
  by (simp add: resetSpan_eval)

theorem resetSpan_ends_and_clears_witness:
  "snd (resetSpan quiet_env init_state) = init_state \<and>
   snd (resetSpan quiet_env active_state) =
     active_state\<lparr>ended := [Started 0], activeSpan := None\<rparr> \<and>
   snd (resetSpan end_failing_env active_state) =
     active_state\<lparr>diag := [DiagWarn ''Error ending span during reset:''
                               (Some (Thrown ''span already ended''))],
                  activeSpan := None\<rparr> \<and>
   fst (resetSpan end_failing_env active_state) = Normal ()"
  using resetSpan_ends_and_clears [of quiet_env init_state]
    resetSpan_ends_and_clears [of quiet_env active_state]
    resetSpan_ends_and_clears [of end_failing_env active_state]
  by (simp add: quiet_env_def end_failing_env_def init_state_def active_state_def)

text \<open>
  Claim C7: calling \<open>resetSpan\<close> twice in a row leaves the tracker in the state the first
  call left. The second call changes nothing at all (no further \<open>end()\<close>, nothing
  logged) and completes without throwing, whatever the outside world is by then; the
  slot is empty either way.
\<close>

theorem resetSpan_twice:
  "resetSpan w' (snd (resetSpan w s)) = (Normal (), snd (resetSpan w s)) \<and>
   activeSpan (snd (resetSpan w s)) = None \<and>
   ended (snd (resetSpan w' (snd (resetSpan w s)))) = ended (snd (resetSpan w s))"
  by (simp add: resetSpan_eval split: option.splits)

section \<open>Running a trace\<close>

text \<open>
  Claim C3: when the slot is empty and the ambient context carries no span, \<open>RunTrace\<close>
  has the tracer create exactly two spans. The first is a root named after the action,
  started with no parent context and installed in the slot; the second has the same
  name and the root as its parent context, and its handle is the one returned.
  \<open>getActiveSpan()\<close> afterwards returns the root. Nothing is ended. (The tracer is
  taken to create both spans rather than throw.)
\<close>

theorem RunTrace_synthesizes_root:
  assumes "activeSpan s = None" and "ambient w = None"
    and "tracer w \<lparr>span_name = action, span_options = spread_options a,
                   span_context = None\<rparr> = None"
    and "tracer w \<lparr>span_name = action, span_options = spread_options a,
                   span_context = Some (Started (length (spans s)))\<rparr> = None"
  shows "fst (RunTrace w action a s) = Return (Some (Started (Suc (length (spans s))))) \<and>
     spans (snd (RunTrace w action a s)) =
       spans s @
       [\<lparr>span_name = action, span_options = spread_options a, span_context = None\<rparr>,
        \<lparr>span_name = action, span_options = spread_options a,
         span_context = Some (Started (length (spans s)))\<rparr>] \<and>
     activeSpan (snd (RunTrace w action a s)) = Some (Started (length (spans s))) \<and>
     fst (getActiveSpan (snd (RunTrace w action a s))) = Return (Some (Started (length (spans s)))) \<and>
     ended (snd (RunTrace w action a s)) = ended s"
  using assms by (simp add: RunTrace_synth_eval getActiveSpan_def return_def)

theorem RunTrace_synthesizes_root_witness:
  "fst (RunTrace quiet_env ''checkout'' None init_state) = Return (Some (Started 1)) \<and>
   spans (snd (RunTrace quiet_env ''checkout'' None init_state)) =
     [\<lparr>span_name = ''checkout'', span_options = spread_options None, span_context = None\<rparr>,
      \<lparr>span_name = ''checkout'', span_options = spread_options None,
       span_context = Some (Started 0)\<rparr>] \<and>
   fst (getActiveSpan (snd (RunTrace quiet_env ''checkout'' None init_state))) =
     Return (Some (Started 0))"
  using RunTrace_synthesizes_root [of init_state quiet_env "''checkout''" None]
  by (simp add: quiet_env_def init_state_def)

text \<open>
  Claim C4: when the slot holds a span, the span \<open>RunTrace\<close> creates has the slot's span
  as its parent context, also when the ambient context carries a span of its own. The
  ambient context is not consulted then: replacing it by anything else leaves the call
  unchanged.
\<close>

theorem RunTrace_parent_is_slot:
  assumes "activeSpan s = Some p"
  shows "RunTrace w action a s =
       (case tracer w \<lparr>span_name = action, span_options = spread_options a,
                       span_context = Some p\<rparr> of
          Some e \<Rightarrow> (Throw e, s)
        | None \<Rightarrow>
            (Return (Some (Started (length (spans s)))),
             s\<lparr>spans := spans s @
                  [\<lparr>span_name = action, span_options = spread_options a,
                    span_context = Some p\<rparr>]\<rparr>)) \<and>
     RunTrace (w\<lparr>ambient := q\<rparr>) action a s = RunTrace w action a s"
  using assms by (simp add: RunTrace_parent_eval)

theorem RunTrace_parent_is_slot_witness:
  "RunTrace ambient_env ''checkout'' None active_state =
     (Return (Some (Started 1)),
      active_state\<lparr>spans := spans active_state @
        [\<lparr>span_name = ''checkout'', span_options = spread_options None,
          span_context = Some (Started 0)\<rparr>]\<rparr>) \<and>
   ambient ambient_env = Some (Outside 7) \<and>
   RunTrace (ambient_env\<lparr>ambient := None\<rparr>) ''checkout'' None active_state =
     RunTrace ambient_env ''checkout'' None active_state"
  using RunTrace_parent_is_slot [of active_state "Started 0" ambient_env "''checkout''" None None]
  by (simp add: ambient_env_def active_state_def)

text \<open>
  Claim C8: a \<open>RunTrace\<close> call that finds a parent, in the slot or in the ambient
  context, leaves the slot as it was. The slot changes only on the path that finds no
  parent, where it goes from empty to the synthesized root.
\<close>

theorem RunTrace_slot_frame:
  "((activeSpan s \<noteq> None \<or> ambient w \<noteq> None) \<longrightarrow>
      activeSpan (snd (RunTrace w action a s)) = activeSpan s) \<and>
   (activeSpan (snd (RunTrace w action a s)) \<noteq> activeSpan s \<longrightarrow>
      activeSpan s = None \<and> ambient w = None \<and>
      activeSpan (snd (RunTrace w action a s)) = Some (Started (length (spans s))))"
proof (cases rule: RunTrace_cases [where s = s and w = w])
  case (1 p)
  then show ?thesis
    by (auto simp: RunTrace_parent_eval split: option.splits)
next
  case 2
  then show ?thesis
    by (auto simp: RunTrace_synth_eval split: option.splits)
qed

theorem RunTrace_slot_frame_witness:
  "activeSpan (snd (RunTrace quiet_env ''checkout'' None active_state)) = Some (Started 0) \<and>
   activeSpan (snd (RunTrace ambient_env ''checkout'' None init_state)) = None \<and>
   activeSpan (snd (RunTrace quiet_env ''checkout'' None init_state)) = Some (Started 0) \<and>
   activeSpan init_state = None \<and> ambient quiet_env = None"
proof -
  have "activeSpan (snd (RunTrace quiet_env ''checkout'' None init_state)) \<noteq>
      activeSpan init_state"
    by (simp add: RunTrace_synth_eval quiet_env_def init_state_def)
  then show ?thesis
    using RunTrace_slot_frame [of active_state quiet_env "''checkout''" None]
      RunTrace_slot_frame [of init_state ambient_env "''checkout''" None]
      RunTrace_slot_frame [of init_state quiet_env "''checkout''" None]
    by (simp add: quiet_env_def ambient_env_def init_state_def active_state_def)
qed

text \<open>
  Claim C9: \<open>RunTrace\<close> never returns empty, for any input and any state. The statements
  after \<open>return span\<close> are never reached: the call neither returns \<open>undefined\<close> nor
  runs off its end, and the warning 'No parent span available for RunTrace' is never
  logged. A parent is always there when the requested span is created: the handle the
  call returns is that of the span created last in the call, which is named after the
  action and was requested under a parent context, namely the slot's span, else the
  ambient span, else the root the call has just synthesized. The call returns that
  handle unless \<open>tracer.startSpan\<close> threw (then that exception is the outcome); so with
  a tracer whose \<open>startSpan\<close> completes it always returns it.
\<close>

theorem RunTrace_never_empty:
  "fst (RunTrace w action a s) \<noteq> Return None \<and>
   fst (RunTrace w action a s) \<noteq> Normal () \<and>
   diag (snd (RunTrace w action a s)) = diag s \<and>
   ((\<exists>h. fst (RunTrace w action a s) = Return (Some h)) \<or>
    (\<exists>e r. tracer w r = Some e \<and> fst (RunTrace w action a s) = Throw e)) \<and>
   ((\<forall>r. tracer w r = None) \<longrightarrow> (\<exists>h. fst (RunTrace w action a s) = Return (Some h))) \<and>
   (\<forall>h. fst (RunTrace w action a s) = Return (Some h) \<longrightarrow>
      length (spans s) < length (spans (snd (RunTrace w action a s))) \<and>
      h = Started (length (spans (snd (RunTrace w action a s))) - 1) \<and>
      last (spans (snd (RunTrace w action a s))) =
        \<lparr>span_name = action, span_options = spread_options a,
         span_context =
           Some (case activeSpan s of
                   Some p \<Rightarrow> p
                 | None \<Rightarrow>
                     (case ambient w of
                        Some q \<Rightarrow> q
                      | None \<Rightarrow> Started (length (spans s))))\<rparr>) \<and>
   ((\<forall>r. tracer w r = None) \<longrightarrow>
      fst (RunTrace w action a s) =
        Return (Some (Started (length (spans (snd (RunTrace w action a s))) - 1))))"
proof (cases rule: RunTrace_cases [where s = s and w = w])
  case (1 p)
  then show ?thesis
    by (auto simp: RunTrace_parent_eval split: option.splits)
next
  case 2
  then show ?thesis
    by (auto simp: RunTrace_synth_eval split: option.splits)
qed

theorem RunTrace_never_empty_witness:
  "(\<forall>r. tracer quiet_env r = None) \<and>
   fst (RunTrace quiet_env ''checkout'' None init_state) = Return (Some (Started 1)) \<and>
   length (spans (snd (RunTrace quiet_env ''checkout'' None init_state))) = 2 \<and>
   last (spans (snd (RunTrace quiet_env ''checkout'' None init_state))) =
     \<lparr>span_name = ''checkout'', span_options = spread_options None,
      span_context = Some (Started 0)\<rparr> \<and>
   diag (snd (RunTrace quiet_env ''checkout'' None init_state)) = diag init_state \<and>
   fst (RunTrace ambient_env ''checkout'' None init_state) = Return (Some (Started 0)) \<and>
   last (spans (snd (RunTrace ambient_env ''checkout'' None init_state))) =
     \<lparr>span_name = ''checkout'', span_options = spread_options None,
      span_context = Some (Outside 7)\<rparr>"
proof -
  note quiet = RunTrace_never_empty [of quiet_env "''checkout''" None init_state]
  note amb = RunTrace_never_empty [of ambient_env "''checkout''" None init_state]
  have q: "\<forall>r. tracer quiet_env r = None" and q': "\<forall>r. tracer ambient_env r = None"
    by (simp_all add: quiet_env_def ambient_env_def)
  have len: "length (spans (snd (RunTrace quiet_env ''checkout'' None init_state))) = 2"
    and len': "length (spans (snd (RunTrace ambient_env ''checkout'' None init_state))) = 1"
    by (simp_all add: RunTrace_synth_eval RunTrace_parent_eval quiet_env_def
        ambient_env_def init_state_def)
  have parent: "(case activeSpan init_state of
        Some p \<Rightarrow> p
      | None \<Rightarrow> (case ambient quiet_env of
                   Some q \<Rightarrow> q
                 | None \<Rightarrow> Started (length (spans init_state)))) = Started 0"
    and parent': "(case activeSpan init_state of
        Some p \<Rightarrow> p
      | None \<Rightarrow> (case ambient ambient_env of
                   Some q \<Rightarrow> q
                 | None \<Rightarrow> Started (length (spans init_state)))) = Outside 7"
    by (simp_all add: init_state_def quiet_env_def ambient_env_def)
  from quiet q have "fst (RunTrace quiet_env ''checkout'' None init_state) =
      Return (Some (Started
        (length (spans (snd (RunTrace quiet_env ''checkout'' None init_state))) - 1)))"
    by blast
  then have r: "fst (RunTrace quiet_env ''checkout'' None init_state) =
      Return (Some (Started 1))"
    by (simp add: len)
  from quiet r have "last (spans (snd (RunTrace quiet_env ''checkout'' None init_state))) =
      \<lparr>span_name = ''checkout'', span_options = spread_options None,
       span_context =
         Some (case activeSpan init_state of
                 Some p \<Rightarrow> p
               | None \<Rightarrow> (case ambient quiet_env of
                            Some q \<Rightarrow> q
                          | None \<Rightarrow> Started (length (spans init_state))))\<rparr>"
    by blast
  then have l: "last (spans (snd (RunTrace quiet_env ''checkout'' None init_state))) =
      \<lparr>span_name = ''checkout'', span_options = spread_options None,
       span_context = Some (Started 0)\<rparr>"
    by (simp only: parent)
  from quiet have d: "diag (snd (RunTrace quiet_env ''checkout'' None init_state)) =
      diag init_state"
    by blast
  from amb q' have "fst (RunTrace ambient_env ''checkout'' None init_state) =
      Return (Some (Started
        (length (spans (snd (RunTrace ambient_env ''checkout'' None init_state))) - 1)))"
    by blast
  then have r': "fst (RunTrace ambient_env ''checkout'' None init_state) =
      Return (Some (Started 0))"
    by (simp add: len')
  from amb r' have "last (spans (snd (RunTrace ambient_env ''checkout'' None init_state))) =
      \<lparr>span_name = ''checkout'', span_options = spread_options None,
       span_context =
         Some (case activeSpan init_state of
                 Some p \<Rightarrow> p
               | None \<Rightarrow> (case ambient ambient_env of
                            Some q \<Rightarrow> q
                          | None \<Rightarrow> Started (length (spans init_state))))\<rparr>"
    by blast
  then have l': "last (spans (snd (RunTrace ambient_env ''checkout'' None init_state))) =
      \<lparr>span_name = ''checkout'', span_options = spread_options None,
       span_context = Some (Outside 7)\<rparr>"
    by (simp only: parent')
  from q r len l d r' l' show ?thesis
    by (intro conjI)
qed

section \<open>Where the caller's attributes go\<close>

lemma span_attributes_spread_options:
  "span_attributes (spread_options a) = Map.empty"
  by (simp add: span_attributes_def spread_options_def split: option.splits js_value.splits)

lemma span_attributes_page_options:
  "span_attributes (page_options pageName a) = page_attributes pageName a"
  by (simp add: span_attributes_def page_options_def)

lemma RunTrace_new_requests:
  "r \<in> set (drop (length (spans s)) (spans (snd (RunTrace w action a s)))) \<Longrightarrow>
     span_name r = action \<and> span_options r = spread_options a"
proof (cases rule: RunTrace_cases [where s = s and w = w])
  case (1 p)
  assume "r \<in> set (drop (length (spans s)) (spans (snd (RunTrace w action a s))))"
  with 1 show ?thesis
    by (auto simp: RunTrace_parent_eval split: option.splits)
next
  case 2
  assume "r \<in> set (drop (length (spans s)) (spans (snd (RunTrace w action a s))))"
  with 2 show ?thesis
    by (auto simp: RunTrace_synth_eval split: option.splits)
qed

lemma startPageSpan_new_requests:
  "r \<in> set (drop (length (spans s)) (spans (snd (startPageSpan w pageName a s)))) \<Longrightarrow>
     span_name r = ''page.'' @ pageName \<and> span_options r = page_options pageName a"
  by (auto simp: startPageSpan_eval split: option.splits)

text \<open>
  Claim C10: \<open>RunTrace\<close> hands the caller's attribute map to \<open>tracer.startSpan\<close> as the
  options object itself: every span it creates gets options whose entries are the
  caller's entries, each at the top level, and no mapping under the key \<open>attributes\<close>,
  so the span carries none of them as span attributes. \<open>startPageSpan\<close> nests them: the
  options of its span hold one entry, \<open>attributes\<close>, and every entry of the caller's
  map is a span attribute.
\<close>

theorem RunTrace_attributes_are_the_options:
  "(\<forall>r \<in> set (drop (length (spans s)) (spans (snd (RunTrace w action (Some m) s)))).
      span_options r = (\<lambda>k. map_option Prim (m k)) \<and>
      span_attributes (span_options r) = Map.empty \<and>
      (\<forall>k v. m k = Some v \<longrightarrow>
         span_options r k = Some (Prim v) \<and> span_attributes (span_options r) k = None)) \<and>
   (\<forall>r \<in> set (drop (length (spans s)) (spans (snd (startPageSpan w pageName (Some m) s)))).
      span_options r = [''attributes'' \<mapsto> Obj (page_attributes pageName (Some m))] \<and>
      (\<forall>k v. m k = Some v \<longrightarrow> span_attributes (span_options r) k = Some v))"
proof -
  have opts: "spread_options (Some m) = (\<lambda>k. map_option Prim (m k))"
    by (simp add: spread_options_def spread_def)
  have page: "\<forall>k v. m k = Some v \<longrightarrow> page_attributes pageName (Some m) k = Some v"
    by (simp add: page_attributes_def spread_def map_add_def)
  have "\<forall>r \<in> set (drop (length (spans s)) (spans (snd (RunTrace w action (Some m) s)))).
      span_options r = (\<lambda>k. map_option Prim (m k)) \<and>
      span_attributes (span_options r) = Map.empty \<and>
      (\<forall>k v. m k = Some v \<longrightarrow>
         span_options r k = Some (Prim v) \<and> span_attributes (span_options r) k = None)"
  proof
    fix r
    assume "r \<in> set (drop (length (spans s)) (spans (snd (RunTrace w action (Some m) s))))"
    then have r: "span_options r = spread_options (Some m)"
      by (simp add: RunTrace_new_requests)
    have "span_attributes (span_options r) = Map.empty"
      unfolding r by (rule span_attributes_spread_options)
    with r opts show "span_options r = (\<lambda>k. map_option Prim (m k)) \<and>
      span_attributes (span_options r) = Map.empty \<and>
      (\<forall>k v. m k = Some v \<longrightarrow>
         span_options r k = Some (Prim v) \<and> span_attributes (span_options r) k = None)"
      by simp
  qed
  moreover
  have "\<forall>r \<in> set (drop (length (spans s)) (spans (snd (startPageSpan w pageName (Some m) s)))).
      span_options r = [''attributes'' \<mapsto> Obj (page_attributes pageName (Some m))] \<and>
      (\<forall>k v. m k = Some v \<longrightarrow> span_attributes (span_options r) k = Some v)"
  proof
    fix r
    assume "r \<in> set (drop (length (spans s))
                  (spans (snd (startPageSpan w pageName (Some m) s))))"
    then have r: "span_options r = page_options pageName (Some m)"
      by (simp add: startPageSpan_new_requests)
    with page show "span_options r = [''attributes'' \<mapsto> Obj (page_attributes pageName (Some m))] \<and>
      (\<forall>k v. m k = Some v \<longrightarrow> span_attributes (span_options r) k = Some v)"
      by (simp add: span_attributes_page_options) (simp add: page_options_def)
  qed
  ultimately show ?thesis by blast
qed

theorem RunTrace_attributes_are_the_options_witness:
  "spans (snd (RunTrace quiet_env ''checkout'' (Some sample_attributes) init_state)) =
     [\<lparr>span_name = ''checkout'', span_options = spread_options (Some sample_attributes),
       span_context = None\<rparr>,
      \<lparr>span_name = ''checkout'', span_options = spread_options (Some sample_attributes),
       span_context = Some (Started 0)\<rparr>] \<and>
   span_options \<lparr>span_name = ''checkout'',
       span_options = spread_options (Some sample_attributes), span_context = Some (Started 0)\<rparr>
     ''route.path'' = Some (Prim (PString ''/dashboard'')) \<and>
   span_attributes (span_options \<lparr>span_name = ''checkout'',
       span_options = spread_options (Some sample_attributes), span_context = Some (Started 0)\<rparr>)
     ''route.path'' = None \<and>
   spans (snd (startPageSpan quiet_env ''dashboard'' (Some sample_attributes) init_state)) =
     [\<lparr>span_name = ''page.dashboard'',
       span_options = page_options ''dashboard'' (Some sample_attributes),
       span_context = None\<rparr>] \<and>
   span_attributes (span_options \<lparr>span_name = ''page.dashboard'',
       span_options = page_options ''dashboard'' (Some sample_attributes),
       span_context = None\<rparr>) ''route.path'' = Some (PString ''/dashboard'')"
proof -
  have run: "spans (snd (RunTrace quiet_env ''checkout'' (Some sample_attributes) init_state)) =
     [\<lparr>span_name = ''checkout'', span_options = spread_options (Some sample_attributes),
       span_context = None\<rparr>,
      \<lparr>span_name = ''checkout'', span_options = spread_options (Some sample_attributes),
       span_context = Some (Started 0)\<rparr>]"
    by (simp add: RunTrace_synth_eval quiet_env_def init_state_def)
  have page: "spans (snd (startPageSpan quiet_env ''dashboard'' (Some sample_attributes)
        init_state)) =
     [\<lparr>span_name = ''page.dashboard'',
       span_options = page_options ''dashboard'' (Some sample_attributes),
       span_context = None\<rparr>]"
    by (simp add: startPageSpan_eval quiet_env_def init_state_def)
  have m: "sample_attributes ''route.path'' = Some (PString ''/dashboard'')"
    by (simp add: sample_attributes_def)
  have len: "length (spans init_state) = 0"
    by (simp add: init_state_def)
  have new: "\<lparr>span_name = ''checkout'',
        span_options = spread_options (Some sample_attributes), span_context = Some (Started 0)\<rparr>
      \<in> set (drop (length (spans init_state))
          (spans (snd (RunTrace quiet_env ''checkout'' (Some sample_attributes) init_state))))"
    and new_page: "\<lparr>span_name = ''page.dashboard'',
        span_options = page_options ''dashboard'' (Some sample_attributes),
        span_context = None\<rparr>
      \<in> set (drop (length (spans init_state))
          (spans (snd (startPageSpan quiet_env ''dashboard'' (Some sample_attributes)
             init_state))))"
    by (simp_all add: run page len)
  from new new_page m run page show ?thesis
    using RunTrace_attributes_are_the_options
      [of init_state quiet_env "''checkout''" sample_attributes "''dashboard''"]
    by blast
qed

section \<open>The slot over sequences of calls\<close>

lemma run_append: "run (cs @ ds) s = run ds (run cs s)"
  by (induction cs arbitrary: s) simp_all

lemma handles_ok_init: "handles_ok init_state"
  by (simp add: handles_ok_def init_state_def)

lemma started_in_mono:
  "started_in s h \<Longrightarrow> length (spans s) \<le> length (spans s') \<Longrightarrow> started_in s' h"
  by (cases h) (simp_all add: started_in_def)

lemma started_in_fresh: "started_in s h \<Longrightarrow> h \<noteq> Started (length (spans s))"
  by (cases h) (simp_all add: started_in_def)

lemma handles_ok_frame:
  assumes "handles_ok s"
    and "spans s' = spans s" and "ended s' = ended s" and "activeSpan s' = activeSpan s"
  shows "handles_ok s'"
proof -
  have "started_in s' h = started_in s h" for h
    using assms(2) by (cases h) (simp_all add: started_in_def)
  with assms show ?thesis
    by (simp add: handles_ok_def split: option.splits)
qed

lemma handles_ok_more_spans:
  assumes "handles_ok s"
  shows "handles_ok (s\<lparr>spans := spans s @ rs\<rparr>)"
proof -
  have "started_in (s\<lparr>spans := spans s @ rs\<rparr>) h" if "started_in s h" for h
    using that by (rule started_in_mono) simp
  with assms show ?thesis
    by (auto simp: handles_ok_def split: option.splits)
qed

lemma handles_ok_install:
  assumes "handles_ok s" and "activeSpan s = None"
  shows "handles_ok
    (s\<lparr>spans := spans s @ r # rs, activeSpan := Some (Started (length (spans s)))\<rparr>)"
proof -
  let ?s' =
    "s\<lparr>spans := spans s @ r # rs, activeSpan := Some (Started (length (spans s)))\<rparr>"
  have mono: "started_in ?s' h" if "started_in s h" for h
    using that by (rule started_in_mono) simp
  have "started_in ?s' (Started (length (spans s)))"
    by (simp add: started_in_def)
  moreover have "Started (length (spans s)) \<notin> set (ended s)"
    using assms(1) started_in_fresh by (auto simp: handles_ok_def)
  ultimately show ?thesis
    using assms mono by (auto simp: handles_ok_def)
qed

lemma RunTrace_handles_ok:
  assumes "handles_ok s"
  shows "handles_ok (snd (RunTrace w action a s))"
proof (cases rule: RunTrace_cases [where s = s and w = w])
  case (1 p)
  with assms handles_ok_more_spans [OF assms] show ?thesis
    by (simp add: RunTrace_parent_eval split: option.splits)
next
  case 2
  with assms handles_ok_install [OF assms] show ?thesis
    by (simp add: RunTrace_synth_eval split: option.splits)
qed

lemma resetSpan_handles_ok:
  assumes "handles_ok s"
  shows "handles_ok (snd (resetSpan w s))"
proof -
  have "started_in (s\<lparr>ended := ended s @ [x], activeSpan := None\<rparr>) h"
    if "started_in s h" for h x
    using that by (rule started_in_mono) simp
  moreover have "started_in (s\<lparr>diag := d, activeSpan := None\<rparr>) h"
    if "started_in s h" for h d
    using that by (rule started_in_mono) simp
  moreover have "started_in (s\<lparr>activeSpan := None\<rparr>) h" if "started_in s h" for h
    using that by (rule started_in_mono) simp
  ultimately show ?thesis
    using assms by (auto simp: resetSpan_eval handles_ok_def split: option.splits)
qed

lemma startPageSpan_handles_ok:
  assumes "handles_ok s"
  shows "handles_ok (snd (startPageSpan w pageName a s))"
  using assms handles_ok_more_spans [OF assms]
  by (simp add: startPageSpan_eval split: option.splits)

lemma step_handles_ok:
  assumes "handles_ok s"
  shows "handles_ok (step w c s)"
proof (cases c)
  case (OpStartPageSpan pageName a)
  with assms show ?thesis by (simp add: startPageSpan_handles_ok)
next
  case (OpRunTrace action a)
  with assms show ?thesis by (simp add: RunTrace_handles_ok)
next
  case OpResetSpan
  with assms show ?thesis by (simp add: resetSpan_handles_ok)
next
  case OpGetActiveSpan
  with assms show ?thesis by (simp add: getActiveSpan_def return_def)
next
  case OpGetTracer
  with assms show ?thesis by (simp add: getTracer_def return_def)
next
  case OpEnable
  have "handles_ok (snd (enable s))"
    by (rule handles_ok_frame [OF assms]) (simp_all add: enable_def diag_debug_def)
  with OpEnable show ?thesis by simp
next
  case OpDisable
  have "handles_ok (snd (disable s))"
    by (rule handles_ok_frame [OF assms]) (simp_all add: disable_def diag_debug_def)
  with OpDisable show ?thesis by simp
next
  case OpDisableHttpInterceptor
  have "handles_ok (snd (disableHttpInterceptor s))"
    by (rule handles_ok_frame [OF assms])
      (simp_all add: disableHttpInterceptor_def seq_def diag_debug_def)
  with OpDisableHttpInterceptor show ?thesis by simp
next
  case OpIsHttpInterceptorEnabled
  with assms show ?thesis by (simp add: isHttpInterceptorEnabled_def return_def)
qed

lemma run_handles_ok: "handles_ok s \<Longrightarrow> handles_ok (run cs s)"
  by (induction cs arbitrary: s) (simp_all add: step_handles_ok)

text \<open>
  Claim C6: in every state the tracker reaches from construction, through any sequence
  of its operations in any outside world, the slot holds at most one handle, and that
  handle is not one the tracker has ended. Immediately after a reset the slot is empty,
  so it holds no ended handle then.
\<close>

theorem single_active_span:
  "card (set_option (activeSpan (run cs init_state))) \<le> 1 \<and>
   (\<forall>h. activeSpan (run cs init_state) = Some h \<longrightarrow>
      h \<notin> set (ended (run cs init_state))) \<and>
   (cs \<noteq> [] \<and> snd (last cs) = OpResetSpan \<longrightarrow> activeSpan (run cs init_state) = None)"
proof -
  have one: "card (set_option (activeSpan (run cs init_state))) \<le> 1"
    by (cases "activeSpan (run cs init_state)") simp_all
  have "handles_ok (run cs init_state)"
    by (rule run_handles_ok [OF handles_ok_init])
  then have live: "\<forall>h. activeSpan (run cs init_state) = Some h \<longrightarrow>
      h \<notin> set (ended (run cs init_state))"
    by (simp add: handles_ok_def split: option.splits)
  have reset: "activeSpan (run cs init_state) = None"
    if "cs \<noteq> []" and "snd (last cs) = OpResetSpan"
  proof -
    from that have "cs = butlast cs @ [(fst (last cs), OpResetSpan)]"
      by (metis append_butlast_last_id prod.collapse)
    then have "run cs init_state =
        snd (resetSpan (fst (last cs)) (run (butlast cs) init_state))"
      by (metis run_append run.simps step.simps(3) fst_conv snd_conv)
    then show ?thesis
      by (simp add: resetSpan_eval)
  qed
  from one live reset show ?thesis by blast
qed

theorem single_active_span_witness:
  "activeSpan (run [(quiet_env, OpRunTrace ''checkout'' None)] init_state) = Some (Started 0) \<and>
   Started 0 \<notin> set (ended (run [(quiet_env, OpRunTrace ''checkout'' None)] init_state)) \<and>
   activeSpan (run [(quiet_env, OpRunTrace ''checkout'' None), (quiet_env, OpResetSpan)]
     init_state) = None \<and>
   ended (run [(quiet_env, OpRunTrace ''checkout'' None), (quiet_env, OpResetSpan)]
     init_state) = [Started 0]"
proof -
  have a: "activeSpan (run [(quiet_env, OpRunTrace ''checkout'' None)] init_state) = Some (Started 0)"
    by (simp add: RunTrace_synth_eval quiet_env_def init_state_def)
  have e: "ended (run [(quiet_env, OpRunTrace ''checkout'' None), (quiet_env, OpResetSpan)]
     init_state) = [Started 0]"
    by (simp add: RunTrace_synth_eval resetSpan_eval quiet_env_def init_state_def)
  show ?thesis
    using a e single_active_span [of "[(quiet_env, OpRunTrace ''checkout'' None)]"]
      single_active_span
        [of "[(quiet_env, OpRunTrace ''checkout'' None), (quiet_env, OpResetSpan)]"]
    by simp
qed

end
